theory Spec2Isabelle
  imports Main
begin

section \<open>Strings and paths (the Go library functions the program calls)\<close>

text \<open>
  A Go string is a sequence of bytes, as a HOL \<open>string\<close> is. \<open>strings.ReplaceAll s old new\<close>
  replaces the non-overlapping occurrences of \<open>old\<close> from left to right. The program
  only calls it with a one-byte \<open>old\<close>; the equations cover every non-empty \<open>old\<close> and
  leave the empty one unspecified.
\<close>

fun strings_ReplaceAll :: "string \<Rightarrow> string \<Rightarrow> string \<Rightarrow> string" where
  "strings_ReplaceAll [] (a # old) new = []"
| "strings_ReplaceAll (c # s) (a # old) new =
     (if c = a \<and> take (length old) s = old
      then new @ strings_ReplaceAll (drop (length old) s) (a # old) new
      else c # strings_ReplaceAll s (a # old) new)"

text \<open>\<open>strings.Split s sep\<close> for a one-byte separator: never the empty list.\<close>

fun strings_Split :: "string \<Rightarrow> char \<Rightarrow> string list" where
  "strings_Split [] sep = [[]]"
| "strings_Split (c # s) sep =
     (if c = sep then [] # strings_Split s sep
      else (case strings_Split s sep of
              [] \<Rightarrow> [[c]]
            | x # xs \<Rightarrow> (c # x) # xs))"

fun strings_Join :: "string list \<Rightarrow> string \<Rightarrow> string" where
  "strings_Join [] sep = []"
| "strings_Join [x] sep = x"
| "strings_Join (x # y # xs) sep = x @ sep @ strings_Join (y # xs) sep"

text \<open>
  \<open>filepath.Clean\<close> on a Unix host, element by element: empty elements and \<open>.\<close> are
  dropped, \<open>..\<close> removes the element before it (at the root it is dropped, at the start
  of a relative path it is kept). The stack of kept elements is held in reverse.
\<close>

definition clean_step :: "bool \<Rightarrow> string list \<Rightarrow> string \<Rightarrow> string list" where
  "clean_step rooted stk c =
     (if c = [] \<or> c = ''.'' then stk
      else if c = ''..'' then
        (case stk of
           [] \<Rightarrow> (if rooted then [] else [''..''])
         | t # ts \<Rightarrow> (if t = ''..'' then ''..'' # t # ts else ts))
      else c # stk)"

definition filepath_Clean :: "string \<Rightarrow> string" where
  "filepath_Clean path =
     (case path of
        [] \<Rightarrow> ''.''
      | c # _ \<Rightarrow>
          (let rooted = (c = CHR ''/'');
               body = strings_Join (rev (foldl (clean_step rooted) [] (strings_Split path CHR ''/''))) ''/''
           in if rooted then CHR ''/'' # body
              else if body = [] then ''.'' else body))"

definition filepath_Join :: "string list \<Rightarrow> string" where
  "filepath_Join elem =
     (case dropWhile (\<lambda>e. e = []) elem of
        [] \<Rightarrow> []
      | e # es \<Rightarrow> filepath_Clean (strings_Join (e # es) ''/''))"

text \<open>The line feed that ends every printed message and every written line.\<close>

definition nl :: string where
  "nl = [CHR 0x0A]"

section \<open>The environment and the effects of a run\<close>

text \<open>The project metadata record that \<open>getPubSpec()\<close> returns.\<close>

record pubSpec =
  Name :: string
  Version :: string
  Author :: string
  Description :: string

text \<open>
  What the program does to the outside world, in the order it does it. An error is the
  text \<open>%v\<close> prints for it; \<open>None\<close> is Go's \<open>nil\<close> error. A file handle is named by the
  path it was created at.
\<close>

datatype event =
    Printed string
  | MkdirAll string nat "string option"
  | Create string "string option"
  | WriteString string string "string option"
  | Close string "string option"
  | Chmod string nat "string option"
  | TempDir string string "string + string"
  | Copy string string "string option"
  | Run string "string list" string "string option"
  | Rename string string "string option"
  | RemoveAll string "string option"

datatype stat_result = StatOk | StatNotExist | StatError string

text \<open>
  The environment answers every call. The queries (\<open>os.Stat\<close>, \<open>exec.LookPath\<close>,
  \<open>os.Getwd\<close>, \<open>user.Current\<close>) change nothing, are not recorded, and are answered
  from the world as the run finds it: every function below makes its probes before its
  first effect on the file system, and none changes the working directory. The outcome
  of an effect may depend on when it is asked for: its first argument is the number of
  events so far. \<open>buildPath\<close> is a
  constant of the repository that is declared outside this file, and \<open>runtime.GOOS\<close>,
  \<open>runtime.GOARCH\<close> are fixed for a run.

  Modelled from the spec: \<open>getPubSpec\<close> and \<open>outputDirectoryPath\<close> are helpers of this
  repository that are not in the source file. Section 6 gives their contracts:
  \<open>GetProjectMetadata() -> {name, version, author, description}\<close>, a read-only record,
  and \<open>OutputDirectoryPath(format) -> directory\<close>, a pure path provider.
\<close>

record env =
  runtime_GOOS :: string
  runtime_GOARCH :: string
  buildPath :: string
  getPubSpec :: pubSpec
  outputDirectoryPath :: "string \<Rightarrow> string"
  os_Getwd :: "string + string"
  user_Current :: "string + string"
  exec_LookPath :: "string \<Rightarrow> string + string"
  os_Stat :: "string \<Rightarrow> stat_result"
  env_MkdirAll :: "nat \<Rightarrow> string \<Rightarrow> nat \<Rightarrow> string option"
  env_Create :: "nat \<Rightarrow> string \<Rightarrow> string option"
  env_WriteString :: "nat \<Rightarrow> string \<Rightarrow> string \<Rightarrow> string option"
  env_Close :: "nat \<Rightarrow> string \<Rightarrow> string option"
  env_Chmod :: "nat \<Rightarrow> string \<Rightarrow> nat \<Rightarrow> string option"
  env_TempDir :: "nat \<Rightarrow> string \<Rightarrow> string \<Rightarrow> string + string"
  env_Copy :: "nat \<Rightarrow> string \<Rightarrow> string \<Rightarrow> string option"
  env_Run :: "nat \<Rightarrow> string \<Rightarrow> string list \<Rightarrow> string \<Rightarrow> string option"
  env_Rename :: "nat \<Rightarrow> string \<Rightarrow> string \<Rightarrow> string option"
  env_RemoveAll :: "nat \<Rightarrow> string \<Rightarrow> string option"

text \<open>
  A run either returns a value or ends the process with \<open>os.Exit\<close>; both carry the
  events so far. An action takes the events so far and returns an outcome.
\<close>

datatype 'a outcome = Returns 'a "event list" | Exits nat "event list"

type_synonym 'a action = "event list \<Rightarrow> 'a outcome"

fun events_of :: "'a outcome \<Rightarrow> event list" where
  "events_of (Returns x h) = h"
| "events_of (Exits c h) = h"

definition returns :: "'a \<Rightarrow> 'a action" where
  "returns x h = Returns x h"

definition andThen :: "'a action \<Rightarrow> ('a \<Rightarrow> 'b action) \<Rightarrow> 'b action" where
  "andThen m f h = (case m h of Exits c h' \<Rightarrow> Exits c h' | Returns x h' \<Rightarrow> f x h')"

definition os_Exit :: "nat \<Rightarrow> 'a action" where
  "os_Exit c h = Exits c h"

definition fmt_Print :: "string \<Rightarrow> unit action" where
  "fmt_Print s h = Returns () (h @ [Printed s])"

text \<open>The recurring pair \<open>fmt.Printf(...); os.Exit(1)\<close>.\<close>

definition fatal :: "string \<Rightarrow> 'a action" where
  "fatal msg = andThen (fmt_Print msg) (\<lambda>_. os_Exit 1)"

definition effect :: "(event list \<Rightarrow> 'a) \<Rightarrow> ('a \<Rightarrow> event) \<Rightarrow> 'a action" where
  "effect q ev h = Returns (q h) (h @ [ev (q h)])"

text \<open>
  \<open>filepath.Abs\<close>: an absolute path is cleaned; a relative one is joined to the working
  directory, and the error of \<open>os.Getwd\<close> is returned.
\<close>

definition filepath_Abs :: "env \<Rightarrow> string \<Rightarrow> string + string" where
  "filepath_Abs E path =
     (if take 1 path = [CHR 0x2F] then Inr (filepath_Clean path)
      else (case os_Getwd E of
              Inl err \<Rightarrow> Inl err
            | Inr wd \<Rightarrow> Inr (filepath_Join [wd, path])))"

definition os_MkdirAll :: "env \<Rightarrow> string \<Rightarrow> nat \<Rightarrow> string option action" where
  "os_MkdirAll E path perm = effect (\<lambda>h. env_MkdirAll E (length h) path perm) (MkdirAll path perm)"

definition os_Create :: "env \<Rightarrow> string \<Rightarrow> string option action" where
  "os_Create E path = effect (\<lambda>h. env_Create E (length h) path) (Create path)"

definition file_WriteString :: "env \<Rightarrow> string \<Rightarrow> string \<Rightarrow> string option action" where
  "file_WriteString E file s = effect (\<lambda>h. env_WriteString E (length h) file s) (WriteString file s)"

definition file_Close :: "env \<Rightarrow> string \<Rightarrow> string option action" where
  "file_Close E file = effect (\<lambda>h. env_Close E (length h) file) (Close file)"

definition os_Chmod :: "env \<Rightarrow> string \<Rightarrow> nat \<Rightarrow> string option action" where
  "os_Chmod E path perm = effect (\<lambda>h. env_Chmod E (length h) path perm) (Chmod path perm)"

definition ioutil_TempDir :: "env \<Rightarrow> string \<Rightarrow> string \<Rightarrow> (string + string) action" where
  "ioutil_TempDir E dir pat = effect (\<lambda>h. env_TempDir E (length h) dir pat) (TempDir dir pat)"

definition copy_Copy :: "env \<Rightarrow> string \<Rightarrow> string \<Rightarrow> string option action" where
  "copy_Copy E src dst = effect (\<lambda>h. env_Copy E (length h) src dst) (Copy src dst)"

definition cmd_Run :: "env \<Rightarrow> string \<Rightarrow> string list \<Rightarrow> string \<Rightarrow> string option action" where
  "cmd_Run E bin args dir = effect (\<lambda>h. env_Run E (length h) bin args dir) (Run bin args dir)"

definition os_Rename :: "env \<Rightarrow> string \<Rightarrow> string \<Rightarrow> string option action" where
  "os_Rename E old new = effect (\<lambda>h. env_Rename E (length h) old new) (Rename old new)"

definition os_RemoveAll :: "env \<Rightarrow> string \<Rightarrow> string option action" where
  "os_RemoveAll E path = effect (\<lambda>h. env_RemoveAll E (length h) path) (RemoveAll path)"

section \<open>packaging.go: the helpers\<close>

text \<open>The permission bits \<open>0775\<close> and \<open>0777\<close>, octal in the source.\<close>

definition perm_0775 :: nat where
  "perm_0775 = 7 * 64 + 7 * 8 + 5"

definition perm_0777 :: nat where
  "perm_0777 = 7 * 64 + 7 * 8 + 7"

definition packagingPath :: "env \<Rightarrow> string" where
  "packagingPath E = filepath_Join [buildPath E, ''packaging'']"

definition linuxPackagingDependencies :: "string list" where
  "linuxPackagingDependencies = [''libx11-6'', ''libxrandr2'', ''libxcursor1'', ''libxinerama1'']"

definition packagingFormatPath :: "env \<Rightarrow> string \<Rightarrow> string action" where
  "packagingFormatPath E packagingFormat =
     (case filepath_Abs E (filepath_Join [packagingPath E, packagingFormat]) of
         Inl err \<Rightarrow>
           fatal (''hover: Failed to resolve absolute path for '' @ packagingFormat
                  @ '' directory: '' @ err @ nl)
       | Inr directoryPath \<Rightarrow> returns directoryPath)"

definition alreadyExistsMessage :: "string \<Rightarrow> string" where
  "alreadyExistsMessage packagingFormat =
     ''hover: A file or directory named `'' @ packagingFormat
     @ ''` already exists. Cannot continue packaging init for '' @ packagingFormat
     @ ''.'' @ nl"

definition createPackagingFormatDirectory :: "env \<Rightarrow> string \<Rightarrow> unit action" where
  "createPackagingFormatDirectory E packagingFormat =
     andThen (packagingFormatPath E packagingFormat) (\<lambda>p.
      (if os_Stat E p \<noteq> StatNotExist then fatal (alreadyExistsMessage packagingFormat)
       else
         andThen (packagingFormatPath E packagingFormat) (\<lambda>p1.
         andThen (os_MkdirAll E p1 perm_0775) (\<lambda>err.
           case err of
             Some e \<Rightarrow>
               andThen (packagingFormatPath E packagingFormat) (\<lambda>p2.
                 fatal (''hover: Failed to create '' @ packagingFormat @ '' directory ''
                        @ p2 @ '': '' @ e @ nl))
           | None \<Rightarrow> returns ()))))"

definition notInitializedMessage :: "string \<Rightarrow> string" where
  "notInitializedMessage packagingFormat =
     ''hover: '' @ packagingFormat
     @ '' is not initialized for packaging. Please run `hover init-packaging ''
     @ packagingFormat @ ''` first.'' @ nl"

definition assertPackagingFormatInitialized :: "env \<Rightarrow> string \<Rightarrow> unit action" where
  "assertPackagingFormatInitialized E packagingFormat =
     andThen (packagingFormatPath E packagingFormat) (\<lambda>p.
      (if os_Stat E p = StatNotExist then fatal (notInitializedMessage packagingFormat)
       else returns ()))"

text \<open>
  \<open>strings.Split(packagingFormat, "-")[0]\<close>: the index is in range, since the split of
  a string is never empty; the empty case is Go's index panic (exit status 2).
\<close>

definition assertCorrectOS :: "env \<Rightarrow> string \<Rightarrow> unit action" where
  "assertCorrectOS E packagingFormat =
     (case strings_Split packagingFormat CHR ''-'' of
        [] \<Rightarrow> os_Exit 2
      | os # _ \<Rightarrow>
          if runtime_GOOS E \<noteq> os then
            fatal (''hover: '' @ packagingFormat @ '' only works on '' @ os @ nl)
          else returns ())"

definition removeDashesAndUnderscores :: "string \<Rightarrow> string" where
  "removeDashesAndUnderscores projectName =
     strings_ReplaceAll (strings_ReplaceAll projectName ''-'' []) ''_'' []"

definition printInitFinished :: "string \<Rightarrow> unit action" where
  "printInitFinished packagingFormat =
     andThen (fmt_Print (''hover: go/packaging/'' @ packagingFormat
        @ '' has been created. You can modify the configuration files and add it to git.'' @ nl)) (\<lambda>_.
     (case strings_Split packagingFormat CHR ''-'' of
        [] \<Rightarrow> os_Exit 2
      | os # _ \<Rightarrow>
          fmt_Print (''hover: You now can package the '' @ os @ '' using `hover build ''
                     @ packagingFormat @ ''`'' @ nl)))"

definition getTemporaryBuildDirectory :: "env \<Rightarrow> string \<Rightarrow> string \<Rightarrow> string action" where
  "getTemporaryBuildDirectory E projectName packagingFormat =
     andThen (ioutil_TempDir E [] (''hover-build-'' @ projectName @ ''-'' @ packagingFormat)) (\<lambda>r.
       case r of
         Inl err \<Rightarrow>
           fatal (''hover: Couldn'' @ [CHR 0x27] @ ''t get temporary build directory: '' @ err @ nl)
       | Inr tmpPath \<Rightarrow> returns tmpPath)"

text \<open>
  The loop \<open>for _, line := range content\<close> that writes each line with its line feed and
  ends the process at the first write error; \<open>what\<close> is the file's name in the message.
\<close>

fun writeLines :: "env \<Rightarrow> string \<Rightarrow> string \<Rightarrow> string list \<Rightarrow> unit action" where
  "writeLines E file what [] = returns ()"
| "writeLines E file what (line # rest) =
     andThen (file_WriteString E file (line @ nl)) (\<lambda>err.
       case err of
         Some e \<Rightarrow> fatal (''hover: Could not write '' @ what @ '': '' @ e @ nl)
       | None \<Rightarrow> writeLines E file what rest)"

section \<open>packaging.go: snap\<close>

definition snapcraftFileContent :: "env \<Rightarrow> string \<Rightarrow> string list" where
  "snapcraftFileContent E projectName =
     [ ''name: '' @ removeDashesAndUnderscores projectName,
       ''base: core18'',
       ''version: '' @ [CHR 0x27] @ Version (getPubSpec E) @ [CHR 0x27],
       ''summary: '' @ Description (getPubSpec E),
       ''description: |'',
       ''  '' @ Description (getPubSpec E),
       ''confinement: devmode'',
       ''grade: devel'',
       ''apps:'',
       ''  '' @ removeDashesAndUnderscores projectName @ '':'',
       ''    command: '' @ projectName,
       ''    desktop: local/'' @ projectName @ ''.desktop'',
       ''parts:'',
       ''  desktop:'',
       ''    plugin: dump'',
       ''    source: snap'',
       ''  assets:'',
       ''    plugin: dump'',
       ''    source: assets'',
       ''  app:'',
       ''    plugin: dump'',
       ''    source: build'',
       ''    stage-packages:'' ]
     @ map (\<lambda>dependency. ''      - '' @ dependency) linuxPackagingDependencies"

definition snapDesktopFileContent :: "env \<Rightarrow> string \<Rightarrow> string list" where
  "snapDesktopFileContent E projectName =
     [ ''[Desktop Entry]'',
       ''Encoding=UTF-8'',
       ''Version='' @ Version (getPubSpec E),
       ''Type=Application'',
       ''Terminal=false'',
       ''Exec=/'' @ projectName,
       ''Name='' @ projectName,
       ''Icon=/icon.png'' ]"

definition initLinuxSnap :: "env \<Rightarrow> string \<Rightarrow> unit action" where
  "initLinuxSnap E projectName =
    (let packagingFormat = ''linux-snap'' in
     andThen (assertCorrectOS E packagingFormat) (\<lambda>_.
     andThen (createPackagingFormatDirectory E packagingFormat) (\<lambda>_.
     andThen (packagingFormatPath E packagingFormat) (\<lambda>snapDirectoryPath.
     (case filepath_Abs E (filepath_Join [snapDirectoryPath, ''snap'', ''local'']) of
       Inl err \<Rightarrow>
         fatal (''hover: Failed to resolve absolute path for snap local directory: '' @ err @ nl)
     | Inr snapLocalDirectoryPath \<Rightarrow>
     andThen (os_MkdirAll E snapLocalDirectoryPath perm_0775) (\<lambda>err.
     case err of
       Some e \<Rightarrow>
         fatal (''hover: Failed to create snap local directory '' @ snapDirectoryPath
                @ '': '' @ e @ nl)
     | None \<Rightarrow>
     (case filepath_Abs E (filepath_Join [snapDirectoryPath, ''snap'', ''snapcraft.yaml'']) of
       Inl err \<Rightarrow>
         fatal (''hover: Failed to resolve absolute path for snapcraft.yaml file '' @ []
                @ '': '' @ err @ nl)
     | Inr snapcraftFilePath \<Rightarrow>
     andThen (os_Create E snapcraftFilePath) (\<lambda>err.
     case err of
       Some e \<Rightarrow>
         fatal (''hover: Failed to create snapcraft.yaml file '' @ snapcraftFilePath
                @ '': '' @ e @ nl)
     | None \<Rightarrow>
     andThen (writeLines E snapcraftFilePath ''snapcraft.yaml''
                (snapcraftFileContent E projectName)) (\<lambda>_.
     andThen (file_Close E snapcraftFilePath) (\<lambda>err.
     case err of
       Some e \<Rightarrow> fatal (''hover: Could not close snapcraft.yaml: '' @ e @ nl)
     | None \<Rightarrow>
     (case filepath_Abs E (filepath_Join [snapLocalDirectoryPath, projectName @ ''.desktop'']) of
       Inl err \<Rightarrow>
         fatal (''hover: Failed to resolve absolute path for desktop file '' @ []
                @ '': '' @ err @ nl)
     | Inr desktopFilePath \<Rightarrow>
     andThen (os_Create E desktopFilePath) (\<lambda>err.
     case err of
       Some e \<Rightarrow>
         fatal (''hover: Failed to create desktop file '' @ desktopFilePath @ '': '' @ e @ nl)
     | None \<Rightarrow>
     andThen (writeLines E desktopFilePath (projectName @ ''.desktop'')
                (snapDesktopFileContent E projectName)) (\<lambda>_.
     andThen (file_Close E desktopFilePath) (\<lambda>err.
     case err of
       Some e \<Rightarrow> fatal (''hover: Could not close '' @ projectName @ ''.desktop: '' @ e @ nl)
     | None \<Rightarrow> printInitFinished packagingFormat))))))))))))))"

definition snapOutputFilePath :: "env \<Rightarrow> string \<Rightarrow> string" where
  "snapOutputFilePath E projectName =
     filepath_Join [outputDirectoryPath E ''linux-snap'',
       removeDashesAndUnderscores projectName @ ''_'' @ runtime_GOARCH E @ ''.snap'']"

definition buildLinuxSnap :: "env \<Rightarrow> string \<Rightarrow> unit action" where
  "buildLinuxSnap E projectName =
    (let packagingFormat = ''linux-snap'' in
     andThen (assertCorrectOS E packagingFormat) (\<lambda>_.
     (case exec_LookPath E ''snapcraft'' of
       Inl err \<Rightarrow>
         fatal (''hover: Failed to lookup `snapcraft` executable. Please install snapcraft.'' @ nl
                @ ''https://tutorials.ubuntu.com/tutorial/create-your-first-snap#1'' @ nl)
     | Inr snapcraftBin \<Rightarrow>
     andThen (getTemporaryBuildDirectory E projectName packagingFormat) (\<lambda>tmpPath.
     andThen (fmt_Print (''hover: Packaging snap in '' @ tmpPath @ nl)) (\<lambda>_.
     andThen (copy_Copy E (filepath_Join [buildPath E, ''assets''])
                (filepath_Join [tmpPath, ''assets''])) (\<lambda>err.
     case err of
       Some e \<Rightarrow> fatal (''hover: Could not copy assets folder: '' @ e @ nl)
     | None \<Rightarrow>
     andThen (copy_Copy E (outputDirectoryPath E ''linux'')
                (filepath_Join [tmpPath, ''build''])) (\<lambda>err.
     case err of
       Some e \<Rightarrow> fatal (''hover: Could not copy build folder: '' @ e @ nl)
     | None \<Rightarrow>
     andThen (packagingFormatPath E packagingFormat) (\<lambda>configPath.
     andThen (copy_Copy E configPath (filepath_Join [tmpPath])) (\<lambda>err.
     case err of
       Some e \<Rightarrow> fatal (''hover: Could not copy packaging configuration folder: '' @ e @ nl)
     | None \<Rightarrow>
     andThen (cmd_Run E snapcraftBin [] tmpPath) (\<lambda>err.
     case err of
       Some e \<Rightarrow> fatal (''hover: Failed to package snap: '' @ e @ nl)
     | None \<Rightarrow>
     (let outputFilePath = snapOutputFilePath E projectName in
     andThen (os_Rename E
                (filepath_Join [tmpPath,
                   removeDashesAndUnderscores projectName @ ''_'' @ Version (getPubSpec E)
                   @ ''_'' @ runtime_GOARCH E @ ''.snap''])
                outputFilePath) (\<lambda>err.
     case err of
       Some e \<Rightarrow> fatal (''hover: Could not move snap file: '' @ e @ nl)
     | None \<Rightarrow>
     andThen (os_RemoveAll E tmpPath) (\<lambda>err.
     case err of
       Some e \<Rightarrow> fatal (''hover: Could not remove packaging configuration folder: '' @ e @ nl)
     | None \<Rightarrow> returns ())))))))))))))"

section \<open>packaging.go: deb\<close>

definition controlFileContent :: "env \<Rightarrow> string \<Rightarrow> string list" where
  "controlFileContent E projectName =
     [ ''Package: '' @ removeDashesAndUnderscores projectName,
       ''Architecture: '' @ runtime_GOARCH E,
       ''Maintainer: @'' @ Author (getPubSpec E),
       ''Priority: optional'',
       ''Version: '' @ Version (getPubSpec E),
       ''Description: '' @ Description (getPubSpec E),
       ''Depends: '' @ strings_Join linuxPackagingDependencies '','' ]"

definition binFileContent :: "string \<Rightarrow> string list" where
  "binFileContent projectName =
     [ ''#!/bin/sh'',
       ''/usr/lib/'' @ projectName @ ''/'' @ projectName ]"

definition debDesktopFileContent :: "env \<Rightarrow> string \<Rightarrow> string list" where
  "debDesktopFileContent E projectName =
     [ ''[Desktop Entry]'',
       ''Encoding=UTF-8'',
       ''Version='' @ Version (getPubSpec E),
       ''Type=Application'',
       ''Terminal=false'',
       ''Exec=/usr/bin/'' @ projectName,
       ''Name='' @ projectName,
       ''Icon=/usr/lib/'' @ projectName @ ''/assets/icon.png'' ]"

text \<open>
  Lines 265 to 275: the local variable \<open>author\<close>, with its fallback to the name of the
  current user. The value is returned to the caller, which binds it as the source does.
\<close>

definition authorOrCurrentUser :: "env \<Rightarrow> string action" where
  "authorOrCurrentUser E =
     (let author = Author (getPubSpec E) in
      if author = [] then
        andThen (fmt_Print (''hover: Missing author field in pubspec.yaml'' @ nl)) (\<lambda>_.
        (case user_Current E of
          Inl err \<Rightarrow>
            fatal (''hover: Couldn'' @ [CHR 0x27] @ ''t get current user: '' @ err @ nl)
        | Inr username \<Rightarrow>
            andThen (fmt_Print (''hover: Using this username from system instead: ''
                                @ username @ nl)) (\<lambda>_.
            returns username)))
      else returns author)"

definition initLinuxDeb :: "env \<Rightarrow> string \<Rightarrow> unit action" where
  "initLinuxDeb E projectName =
    (let packagingFormat = ''linux-deb'' in
     andThen (assertCorrectOS E packagingFormat) (\<lambda>_.
     andThen (authorOrCurrentUser E) (\<lambda>author.
     andThen (createPackagingFormatDirectory E packagingFormat) (\<lambda>_.
     andThen (packagingFormatPath E packagingFormat) (\<lambda>debDirectoryPath.
     (case filepath_Abs E (filepath_Join [debDirectoryPath, ''DEBIAN'']) of
       Inl err \<Rightarrow>
         fatal (''hover: Failed to resolve absolute path for DEBIAN directory: '' @ err @ nl)
     | Inr debDebianDirectoryPath \<Rightarrow>
     andThen (os_MkdirAll E debDebianDirectoryPath perm_0775) (\<lambda>err.
     case err of
       Some e \<Rightarrow>
         fatal (''hover: Failed to create DEBIAN directory '' @ debDebianDirectoryPath
                @ '': '' @ e @ nl)
     | None \<Rightarrow>
     (case filepath_Abs E (filepath_Join [debDirectoryPath, ''usr'', ''bin'']) of
       Inl err \<Rightarrow>
         fatal (''hover: Failed to resolve absolute path for bin directory: '' @ err @ nl)
     | Inr binDirectoryPath \<Rightarrow>
     andThen (os_MkdirAll E binDirectoryPath perm_0775) (\<lambda>err.
     case err of
       Some e \<Rightarrow>
         fatal (''hover: Failed to create bin directory '' @ binDirectoryPath
                @ '': '' @ e @ nl)
     | None \<Rightarrow>
     (case filepath_Abs E
                (filepath_Join [debDirectoryPath, ''usr'', ''share'', ''applications'']) of
       Inl err \<Rightarrow>
         fatal (''hover: Failed to resolve absolute path for applications directory: ''
                @ err @ nl)
     | Inr applicationsDirectoryPath \<Rightarrow>
     andThen (os_MkdirAll E applicationsDirectoryPath perm_0775) (\<lambda>err.
     case err of
       Some e \<Rightarrow>
         fatal (''hover: Failed to create applications directory ''
                @ applicationsDirectoryPath @ '': '' @ e @ nl)
     | None \<Rightarrow>
     (case filepath_Abs E (filepath_Join [debDebianDirectoryPath, ''control'']) of
       Inl err \<Rightarrow>
         fatal (''hover: Failed to resolve absolute path for control file '' @ []
                @ '': '' @ err @ nl)
     | Inr controlFilePath \<Rightarrow>
     andThen (os_Create E controlFilePath) (\<lambda>err.
     case err of
       Some e \<Rightarrow>
         fatal (''hover: Failed to create control file '' @ controlFilePath
                @ '': '' @ e @ nl)
     | None \<Rightarrow>
     andThen (writeLines E controlFilePath ''control file''
                (controlFileContent E projectName)) (\<lambda>_.
     andThen (file_Close E controlFilePath) (\<lambda>err.
     case err of
       Some e \<Rightarrow> fatal (''hover: Could not close control file: '' @ e @ nl)
     | None \<Rightarrow>
     (case filepath_Abs E
                (filepath_Join [binDirectoryPath, removeDashesAndUnderscores projectName]) of
       Inl err \<Rightarrow>
         fatal (''hover: Failed to resolve absolute path for bin file '' @ []
                @ '': '' @ err @ nl)
     | Inr binFilePath \<Rightarrow>
     andThen (os_Create E binFilePath) (\<lambda>err.
     case err of
       Some e \<Rightarrow>
         fatal (''hover: Failed to create bin file '' @ controlFilePath @ '': '' @ e @ nl)
     | None \<Rightarrow>
     andThen (writeLines E binFilePath ''bin file'' (binFileContent projectName)) (\<lambda>_.
     andThen (file_Close E binFilePath) (\<lambda>err.
     case err of
       Some e \<Rightarrow> fatal (''hover: Could not close bin file: '' @ e @ nl)
     | None \<Rightarrow>
     andThen (os_Chmod E binFilePath perm_0777) (\<lambda>err.
     case err of
       Some e \<Rightarrow>
         fatal (''hover: Failed to change file permissions for bin file: '' @ e @ nl)
     | None \<Rightarrow>
     (case filepath_Abs E
                (filepath_Join [applicationsDirectoryPath, projectName @ ''.desktop'']) of
       Inl err \<Rightarrow>
         fatal (''hover: Failed to resolve absolute path for desktop file '' @ []
                @ '': '' @ err @ nl)
     | Inr desktopFilePath \<Rightarrow>
     andThen (os_Create E desktopFilePath) (\<lambda>err.
     case err of
       Some e \<Rightarrow>
         fatal (''hover: Failed to create desktop file '' @ desktopFilePath @ '': '' @ e @ nl)
     | None \<Rightarrow>
     andThen (writeLines E desktopFilePath (projectName @ ''.desktop file'')
                (debDesktopFileContent E projectName)) (\<lambda>_.
     andThen (file_Close E desktopFilePath) (\<lambda>err.
     case err of
       Some e \<Rightarrow>
         fatal (''hover: Could not close '' @ projectName @ ''.desktop file: '' @ e @ nl)
     | None \<Rightarrow> printInitFinished packagingFormat))))))))))))))))))))))))"

definition debOutputFileName :: "env \<Rightarrow> string \<Rightarrow> string" where
  "debOutputFileName E projectName =
     removeDashesAndUnderscores projectName @ ''_'' @ runtime_GOARCH E @ ''.deb''"

definition debOutputFilePath :: "env \<Rightarrow> string \<Rightarrow> string" where
  "debOutputFilePath E projectName =
     filepath_Join [outputDirectoryPath E ''linux-deb'', debOutputFileName E projectName]"

definition buildLinuxDeb :: "env \<Rightarrow> string \<Rightarrow> unit action" where
  "buildLinuxDeb E projectName =
    (let packagingFormat = ''linux-deb'' in
     andThen (assertCorrectOS E packagingFormat) (\<lambda>_.
     (case exec_LookPath E ''dpkg-deb'' of
       Inl err \<Rightarrow>
         fatal (''hover: Failed to lookup `dpkg-deb` executable. Please install dpkg-deb.'' @ nl)
     | Inr dpkgDebBin \<Rightarrow>
     andThen (getTemporaryBuildDirectory E projectName packagingFormat) (\<lambda>tmpPath.
     andThen (fmt_Print (''hover: Packaging deb in '' @ tmpPath @ nl)) (\<lambda>_.
     (case filepath_Abs E (filepath_Join [tmpPath, ''usr'', ''lib'']) of
       Inl err \<Rightarrow>
         fatal (''hover: Failed to resolve absolute path for bin directory: '' @ err @ nl)
     | Inr libDirectoryPath \<Rightarrow>
     andThen (copy_Copy E (outputDirectoryPath E ''linux'')
                (filepath_Join [libDirectoryPath, projectName])) (\<lambda>err.
     case err of
       Some e \<Rightarrow> fatal (''hover: Could not copy build folder: '' @ e @ nl)
     | None \<Rightarrow>
     andThen (packagingFormatPath E packagingFormat) (\<lambda>configPath.
     andThen (copy_Copy E configPath (filepath_Join [tmpPath])) (\<lambda>err.
     case err of
       Some e \<Rightarrow> fatal (''hover: Could not copy packaging configuration folder: '' @ e @ nl)
     | None \<Rightarrow>
     (let outputFileName = debOutputFileName E projectName;
          outputFilePath = debOutputFilePath E projectName in
     andThen (cmd_Run E dpkgDebBin [''--build'', ''.'', outputFileName] tmpPath) (\<lambda>err.
     case err of
       Some e \<Rightarrow> fatal (''hover: Failed to package deb: '' @ e @ nl)
     | None \<Rightarrow>
     andThen (os_Rename E (filepath_Join [tmpPath, outputFileName]) outputFilePath) (\<lambda>err.
     case err of
       Some e \<Rightarrow> fatal (''hover: Could not move deb file: '' @ e @ nl)
     | None \<Rightarrow>
     andThen (os_RemoveAll E tmpPath) (\<lambda>err.
     case err of
       Some e \<Rightarrow> fatal (''hover: Could not remove packaging configuration folder: '' @ e @ nl)
     | None \<Rightarrow> returns ())))))))))))))"

section \<open>The build commands\<close>

text \<open>
  Modelled from the spec: the callers of \<open>buildLinuxSnap\<close> and \<open>buildLinuxDeb\<close>, the build
  commands of the two formats, are not in packaging.go. The spec (section 2, control
  flow) has the caller run the Stager+Builder pipeline behind a guard that fails if the
  format was never scaffolded. The guard is \<open>assertPackagingFormatInitialized\<close> (lines 75
  to 80), which nothing in packaging.go calls; the pipeline is the build function of the
  format.
\<close>

definition buildLinuxSnapCommand :: "env \<Rightarrow> string \<Rightarrow> unit action" where
  "buildLinuxSnapCommand E projectName =
     andThen (assertPackagingFormatInitialized E ''linux-snap'') (\<lambda>_.
     buildLinuxSnap E projectName)"

definition buildLinuxDebCommand :: "env \<Rightarrow> string \<Rightarrow> unit action" where
  "buildLinuxDebCommand E projectName =
     andThen (assertPackagingFormatInitialized E ''linux-deb'') (\<lambda>_.
     buildLinuxDeb E projectName)"

section \<open>What a run did: readings of the event list\<close>

text \<open>
  The state of the format's configuration directory as the run finds it: the path
  \<open><build>/packaging/<format>\<close> resolves and \<open>os.Stat\<close> answers for it.
\<close>

definition configDirectoryState :: "env \<Rightarrow> string \<Rightarrow> stat_result option" where
  "configDirectoryState E packagingFormat =
     (case filepath_Abs E (filepath_Join [packagingPath E, packagingFormat]) of
        Inl err \<Rightarrow> None
      | Inr p \<Rightarrow> Some (os_Stat E p))"

text \<open>Whether the run asked for a temporary directory at all.\<close>

fun tempDirRequested :: "event list \<Rightarrow> bool" where
  "tempDirRequested [] = False"
| "tempDirRequested (TempDir dir pat r # es) = True"
| "tempDirRequested (e # es) = tempDirRequested es"

text \<open>The copies that succeeded, source and destination, in the order they were made.\<close>

fun copies_of :: "event list \<Rightarrow> (string \<times> string) list" where
  "copies_of [] = []"
| "copies_of (Copy src dst None # es) = (src, dst) # copies_of es"
| "copies_of (e # es) = copies_of es"

text \<open>
  Every \<open>os.RemoveAll\<close>, whatever its outcome, comes after a successful \<open>os.Rename\<close> to
  the path \<open>out\<close>; \<open>moved\<close> says whether that rename has been seen.
\<close>

fun cleanupOnlyAfterMove :: "string \<Rightarrow> bool \<Rightarrow> event list \<Rightarrow> bool" where
  "cleanupOnlyAfterMove out moved [] = True"
| "cleanupOnlyAfterMove out moved (Rename src dst None # es) =
     cleanupOnlyAfterMove out (moved \<or> dst = out) es"
| "cleanupOnlyAfterMove out moved (RemoveAll path r # es) =
     (moved \<and> cleanupOnlyAfterMove out moved es)"
| "cleanupOnlyAfterMove out moved (e # es) = cleanupOnlyAfterMove out moved es"

text \<open>Whether any event of the list touches the file system or starts a process.\<close>

fun onlyPrinted :: "event list \<Rightarrow> bool" where
  "onlyPrinted [] = True"
| "onlyPrinted (Printed s # es) = onlyPrinted es"
| "onlyPrinted (e # es) = False"

text \<open>The temporary directory the run was given, if it was given one.\<close>

fun stagingRoot :: "event list \<Rightarrow> string option" where
  "stagingRoot [] = None"
| "stagingRoot (TempDir dir pat (Inr tmpPath) # es) = Some tmpPath"
| "stagingRoot (e # es) = stagingRoot es"

text \<open>Whether the run got as far as starting the native packager: staging is complete.\<close>

fun packagerStarted :: "event list \<Rightarrow> bool" where
  "packagerStarted [] = False"
| "packagerStarted (Run bin args dir r # es) = True"
| "packagerStarted (e # es) = packagerStarted es"

text \<open>
  A handle for case analysis on the calls of a run: \<open>satisfies r P\<close> is \<open>P r\<close>, and the
  rules for it below split an outcome at each answer of the environment.
\<close>

definition satisfies :: "'a outcome \<Rightarrow> ('a outcome \<Rightarrow> bool) \<Rightarrow> bool" where
  "satisfies r P = P r"

section \<open>Concrete hosts\<close>

definition demoPubSpec :: pubSpec where
  "demoPubSpec = \<lparr> Name = ''myapp'', Version = ''1.2.3'', Author = [], Description = ''demo'' \<rparr>"

text \<open>
  A Linux host on which every call succeeds and nothing has been scaffolded yet:
  \<open>os.Stat\<close> finds no path.
\<close>

definition linuxHost :: env where
  "linuxHost =
     \<lparr> runtime_GOOS = ''linux'',
       runtime_GOARCH = ''amd64'',
       buildPath = ''go'',
       getPubSpec = demoPubSpec,
       outputDirectoryPath = (\<lambda>target. ''/home/dev/myapp/go/build/outputs/'' @ target),
       os_Getwd = Inr ''/home/dev/myapp'',
       user_Current = Inr ''dev'',
       exec_LookPath = (\<lambda>file. Inr (''/usr/bin/'' @ file)),
       os_Stat = (\<lambda>path. StatNotExist),
       env_MkdirAll = (\<lambda>t path perm. None),
       env_Create = (\<lambda>t path. None),
       env_WriteString = (\<lambda>t file s. None),
       env_Close = (\<lambda>t file. None),
       env_Chmod = (\<lambda>t path perm. None),
       env_TempDir = (\<lambda>t dir pat. Inr (''/tmp/'' @ pat @ ''123456789'')),
       env_Copy = (\<lambda>t src dst. None),
       env_Run = (\<lambda>t bin args dir. None),
       env_Rename = (\<lambda>t old new. None),
       env_RemoveAll = (\<lambda>t path. None) \<rparr>"

text \<open>The same host after scaffolding: the configuration directories exist.\<close>

definition initializedHost :: env where
  "initializedHost = linuxHost \<lparr> os_Stat := (\<lambda>path. StatOk) \<rparr>"

text \<open>
  The host before scaffolding, where a copy from the missing configuration directory
  fails as the copy library does for a source that is not there.
\<close>

definition uninitializedHost :: env where
  "uninitializedHost =
     linuxHost \<lparr> env_Copy := (\<lambda>t src dst.
       if src = ''/home/dev/myapp/go/packaging/linux-snap''
          \<or> src = ''/home/dev/myapp/go/packaging/linux-deb''
       then Some (''lstat '' @ src @ '': no such file or directory'')
       else None) \<rparr>"

text \<open>A host without the native packaging executables.\<close>

definition bareHost :: env where
  "bareHost =
     initializedHost \<lparr> exec_LookPath := (\<lambda>file.
       Inl (''exec: '' @ file @ '': executable file not found in $PATH'')) \<rparr>"

text \<open>A host where the configuration path is there but cannot be inspected.\<close>

definition lockedHost :: env where
  "lockedHost =
     linuxHost \<lparr> os_Stat := (\<lambda>path. StatError (''stat '' @ path @ '': permission denied'')) \<rparr>"

text \<open>A host where the temporary directory cannot be removed.\<close>

definition stickyHost :: env where
  "stickyHost =
     initializedHost \<lparr> env_RemoveAll := (\<lambda>t path.
       Some (''unlinkat '' @ path @ '': permission denied'')) \<rparr>"

text \<open>A host of another operating system.\<close>

definition darwinHost :: env where
  "darwinHost = initializedHost \<lparr> runtime_GOOS := ''darwin'' \<rparr>"

section \<open>Running actions\<close>

lemma andThen_returns: "andThen (returns x) f = f x"
  by (rule ext) (simp add: andThen_def returns_def)

lemma andThen_effect: "andThen (effect q ev) f h = f (q h) (h @ [ev (q h)])"
  by (simp add: andThen_def effect_def)

lemma fatal_apply: "fatal msg h = Exits 1 (h @ [Printed msg])"
  by (simp add: fatal_def andThen_def fmt_Print_def os_Exit_def)

lemma andThen_fatal: "andThen (fatal msg) f = fatal msg"
  by (rule ext) (simp add: andThen_def fatal_apply)

lemma andThen_Print: "andThen (fmt_Print s) f h = f () (h @ [Printed s])"
  by (simp add: andThen_def fmt_Print_def)

lemma andThen_Exit: "andThen (os_Exit c) f = os_Exit c"
  by (rule ext) (simp add: andThen_def os_Exit_def)

lemma andThen_if: "andThen (if b then m else n) f = (if b then andThen m f else andThen n f)"
  by simp

lemma andThen_case_sum:
  "andThen (case r of Inl a \<Rightarrow> m a | Inr b \<Rightarrow> n b) f =
     (case r of Inl a \<Rightarrow> andThen (m a) f | Inr b \<Rightarrow> andThen (n b) f)"
  by (cases r) simp_all

lemma andThen_case_option:
  "andThen (case r of None \<Rightarrow> m | Some a \<Rightarrow> n a) f =
     (case r of None \<Rightarrow> andThen m f | Some a \<Rightarrow> andThen (n a) f)"
  by (cases r) simp_all

lemma andThen_assoc: "andThen (andThen m f) g = andThen m (\<lambda>x. andThen (f x) g)"
  by (rule ext) (simp add: andThen_def split: outcome.splits)

text \<open>Rewriting a program as a program, and running it on the events so far.\<close>

lemmas prog_simps =
  andThen_returns andThen_fatal andThen_Exit andThen_if andThen_case_sum andThen_case_option
  andThen_assoc

lemmas run_simps = prog_simps andThen_effect andThen_Print fatal_apply

section \<open>The name without dashes and underscores\<close>

lemma ReplaceAll_byte: "strings_ReplaceAll s [c] [] = filter (\<lambda>x. x \<noteq> c) s"
  by (induction s) auto

lemma removeDashesAndUnderscores_filter:
  "removeDashesAndUnderscores s = filter (\<lambda>x. x \<noteq> CHR ''-'' \<and> x \<noteq> CHR ''_'') s"
  by (simp add: removeDashesAndUnderscores_def ReplaceAll_byte conj_commute)

text \<open>
  Claim C5. For every string \<open>s\<close>, \<open>removeDashesAndUnderscores s\<close> contains neither \<open>-\<close>
  nor \<open>_\<close>, and applying the function twice gives the same result as applying it once.
\<close>

theorem removeDashesAndUnderscores_clean_idempotent:
  "CHR ''-'' \<notin> set (removeDashesAndUnderscores s)
   \<and> CHR ''_'' \<notin> set (removeDashesAndUnderscores s)
   \<and> removeDashesAndUnderscores (removeDashesAndUnderscores s) = removeDashesAndUnderscores s"
  by (simp add: removeDashesAndUnderscores_filter)

section \<open>The guards\<close>

lemma assertCorrectOS_snap:
  "assertCorrectOS E ''linux-snap'' =
     (if runtime_GOOS E \<noteq> ''linux'' then fatal (''hover: linux-snap only works on linux'' @ nl)
      else returns ())"
  by (simp add: assertCorrectOS_def)

lemma assertCorrectOS_deb:
  "assertCorrectOS E ''linux-deb'' =
     (if runtime_GOOS E \<noteq> ''linux'' then fatal (''hover: linux-deb only works on linux'' @ nl)
      else returns ())"
  by (simp add: assertCorrectOS_def)

lemma packagingFormatPath_resolved:
  "filepath_Abs E (filepath_Join [packagingPath E, packagingFormat]) = Inr p
   \<Longrightarrow> packagingFormatPath E packagingFormat = returns p"
  by (simp add: packagingFormatPath_def)

text \<open>
  Claim C4. If \<open>exec.LookPath\<close> does not find the format's native packaging executable
  (\<open>snapcraft\<close> for linux-snap, \<open>dpkg-deb\<close> for linux-deb), the build ends the process
  with exit status 1, a non-zero status, after printing one message and nothing else:
  it has not asked for a temporary staging directory.
\<close>

theorem build_without_packager_exits_before_staging:
  "(exec_LookPath E ''snapcraft'' = Inl e \<longrightarrow>
      (\<exists>msg. buildLinuxSnap E projectName h = Exits 1 (h @ [Printed msg]))
      \<and> \<not> tempDirRequested (drop (length h) (events_of (buildLinuxSnap E projectName h))))
   \<and> (exec_LookPath E ''dpkg-deb'' = Inl e' \<longrightarrow>
      (\<exists>msg. buildLinuxDeb E projectName h = Exits 1 (h @ [Printed msg]))
      \<and> \<not> tempDirRequested (drop (length h) (events_of (buildLinuxDeb E projectName h))))"
  by (simp add: buildLinuxSnap_def buildLinuxDeb_def assertCorrectOS_snap assertCorrectOS_deb
      run_simps)

theorem build_without_packager_exits_before_staging_witness:
  "exec_LookPath bareHost ''snapcraft''
     = Inl ''exec: snapcraft: executable file not found in $PATH''
   \<and> exec_LookPath bareHost ''dpkg-deb''
     = Inl ''exec: dpkg-deb: executable file not found in $PATH''
   \<and> \<not> tempDirRequested (events_of (buildLinuxSnap bareHost ''myapp'' []))
   \<and> \<not> tempDirRequested (events_of (buildLinuxDeb bareHost ''myapp'' []))"
  using build_without_packager_exits_before_staging
    [of bareHost "''exec: snapcraft: executable file not found in $PATH''" "''myapp''" "[]"
      "''exec: dpkg-deb: executable file not found in $PATH''"]
  by (simp add: bareHost_def)

section \<open>The existence probes\<close>

lemma configDirectoryState_Some:
  "configDirectoryState E packagingFormat = Some st \<Longrightarrow>
     \<exists>p. filepath_Abs E (filepath_Join [packagingPath E, packagingFormat]) = Inr p
         \<and> os_Stat E p = st"
  by (auto simp: configDirectoryState_def split: sum.splits)

lemma createPackagingFormatDirectory_resolved:
  assumes "filepath_Abs E (filepath_Join [packagingPath E, packagingFormat]) = Inr p"
  shows "createPackagingFormatDirectory E packagingFormat =
     (if os_Stat E p \<noteq> StatNotExist then fatal (alreadyExistsMessage packagingFormat)
      else andThen (os_MkdirAll E p perm_0775) (\<lambda>err.
             case err of
               Some e \<Rightarrow>
                 fatal (''hover: Failed to create '' @ packagingFormat @ '' directory ''
                        @ p @ '': '' @ e @ nl)
             | None \<Rightarrow> returns ()))"
  by (simp add: createPackagingFormatDirectory_def packagingFormatPath_resolved [OF assms]
      prog_simps cong: option.case_cong)

lemma createPackagingFormatDirectory_probe:
  assumes "filepath_Abs E (filepath_Join [packagingPath E, packagingFormat]) = Inr p"
  shows "createPackagingFormatDirectory E packagingFormat h =
     (if os_Stat E p \<noteq> StatNotExist
      then Exits 1 (h @ [Printed (alreadyExistsMessage packagingFormat)])
      else (case env_MkdirAll E (length h) p perm_0775 of
              None \<Rightarrow> Returns () (h @ [MkdirAll p perm_0775 None])
            | Some e \<Rightarrow>
                Exits 1 (h @ [MkdirAll p perm_0775 (Some e),
                   Printed (''hover: Failed to create '' @ packagingFormat @ '' directory ''
                            @ p @ '': '' @ e @ nl)])))"
  by (simp add: createPackagingFormatDirectory_resolved [OF assms]
      os_MkdirAll_def run_simps returns_def split: option.splits)

lemma assertPackagingFormatInitialized_probe:
  assumes "filepath_Abs E (filepath_Join [packagingPath E, packagingFormat]) = Inr p"
  shows "assertPackagingFormatInitialized E packagingFormat =
     (if os_Stat E p = StatNotExist then fatal (notInitializedMessage packagingFormat)
      else returns ())"
  by (simp add: assertPackagingFormatInitialized_def packagingFormatPath_resolved [OF assms]
      prog_simps)

text \<open>Unfolding everything a run on a concrete host needs.\<close>

lemmas effect_defs =
  getTemporaryBuildDirectory_def
  os_MkdirAll_def os_Create_def file_WriteString_def file_Close_def os_Chmod_def
  ioutil_TempDir_def copy_Copy_def cmd_Run_def os_Rename_def os_RemoveAll_def

lemmas eval_simps =
  Let_def filepath_Abs_def filepath_Join_def filepath_Clean_def clean_step_def
  packagingPath_def packagingFormatPath_def effect_defs run_simps nl_def

text \<open>
  Claim C10. Where the path of the format's configuration directory resolves to \<open>p\<close>,
  \<open>createPackagingFormatDirectory\<close> ends the process with the already-exists message, and
  nothing else, for every answer of \<open>os.Stat\<close> other than not-exist: for \<open>StatOk\<close> (the
  path exists) and for every \<open>StatError\<close> (the probe itself failed, a permission error
  for one). Only for not-exist does it go on, and then its first step is
  \<open>os.MkdirAll p 0775\<close>.
\<close>

theorem existence_probe_rejects_every_other_stat_outcome:
  assumes "filepath_Abs E (filepath_Join [packagingPath E, packagingFormat]) = Inr p"
  shows "(os_Stat E p \<noteq> StatNotExist \<longrightarrow>
            createPackagingFormatDirectory E packagingFormat h
              = Exits 1 (h @ [Printed (alreadyExistsMessage packagingFormat)]))
       \<and> (os_Stat E p = StatNotExist \<longrightarrow>
            take 1 (drop (length h)
                      (events_of (createPackagingFormatDirectory E packagingFormat h)))
              = [MkdirAll p perm_0775 (env_MkdirAll E (length h) p perm_0775)])"
  by (simp add: createPackagingFormatDirectory_probe [OF assms] split: option.splits)

theorem existence_probe_rejects_every_other_stat_outcome_witness:
  "os_Stat lockedHost ''/home/dev/myapp/go/packaging/linux-deb''
     = StatError ''stat /home/dev/myapp/go/packaging/linux-deb: permission denied''
   \<and> createPackagingFormatDirectory lockedHost ''linux-deb'' []
     = Exits 1 [Printed (alreadyExistsMessage ''linux-deb'')]"
proof -
  have p: "filepath_Abs lockedHost (filepath_Join [packagingPath lockedHost, ''linux-deb''])
             = Inr ''/home/dev/myapp/go/packaging/linux-deb''"
    by (simp add: lockedHost_def linuxHost_def eval_simps)
  have st: "os_Stat lockedHost ''/home/dev/myapp/go/packaging/linux-deb''
     = StatError ''stat /home/dev/myapp/go/packaging/linux-deb: permission denied''"
    by (simp add: lockedHost_def)
  show ?thesis
    using existence_probe_rejects_every_other_stat_outcome [OF p, of "[]"] st by simp
qed

text \<open>
  Claim C8. Where the format's configuration directory (or any file at its path)
  already exists, \<open>createPackagingFormatDirectory\<close>, the step of scaffolding that the
  two init functions share, ends the process with the already-exists message and does
  nothing else. So do \<open>initLinuxSnap\<close> and \<open>initLinuxDeb\<close>: each run exits with status 1
  and all it does is print, so the existing directory is left as it was. The last
  message of the run is the already-exists one whenever the run gets to the probe, that
  is when the host is Linux and, for deb with an empty author, the lookup of the
  current user did not fail; otherwise the guard before the probe has ended the run.
\<close>

theorem scaffolding_refuses_existing_directory:
  assumes "configDirectoryState E packagingFormat = Some StatOk"
  shows "createPackagingFormatDirectory E packagingFormat h
           = Exits 1 (h @ [Printed (alreadyExistsMessage packagingFormat)])
       \<and> (packagingFormat = ''linux-snap'' \<longrightarrow>
            (\<exists>evs. initLinuxSnap E projectName h = Exits 1 (h @ evs) \<and> onlyPrinted evs
               \<and> (runtime_GOOS E = ''linux'' \<longrightarrow>
                    last evs = Printed (alreadyExistsMessage ''linux-snap''))))
       \<and> (packagingFormat = ''linux-deb'' \<longrightarrow>
            (\<exists>evs. initLinuxDeb E projectName h = Exits 1 (h @ evs) \<and> onlyPrinted evs
               \<and> (runtime_GOOS E = ''linux''
                    \<and> (Author (getPubSpec E) = [] \<longrightarrow> (\<exists>u. user_Current E = Inr u))
                  \<longrightarrow> last evs = Printed (alreadyExistsMessage ''linux-deb''))))"
proof -
  from assms obtain p where
    p: "filepath_Abs E (filepath_Join [packagingPath E, packagingFormat]) = Inr p"
    and st: "os_Stat E p = StatOk"
    by (auto dest: configDirectoryState_Some)
  have probe: "createPackagingFormatDirectory E packagingFormat
      = fatal (alreadyExistsMessage packagingFormat)"
    by (simp add: createPackagingFormatDirectory_resolved [OF p] st)
  have snap: "packagingFormat = ''linux-snap'' \<Longrightarrow>
      initLinuxSnap E projectName h = Exits 1 (h @ [Printed
        (if runtime_GOOS E = ''linux'' then alreadyExistsMessage ''linux-snap''
         else ''hover: linux-snap only works on linux'' @ nl)])"
    using probe
    by (simp add: initLinuxSnap_def assertCorrectOS_snap run_simps)
  have deb: "packagingFormat = ''linux-deb'' \<Longrightarrow>
      initLinuxDeb E projectName h = Exits 1 (h @
        (if runtime_GOOS E \<noteq> ''linux''
         then [Printed (''hover: linux-deb only works on linux'' @ nl)]
         else if Author (getPubSpec E) \<noteq> []
         then [Printed (alreadyExistsMessage ''linux-deb'')]
         else (case user_Current E of
                 Inl err \<Rightarrow>
                   [Printed (''hover: Missing author field in pubspec.yaml'' @ nl),
                    Printed (''hover: Couldn'' @ [CHR 0x27] @ ''t get current user: ''
                             @ err @ nl)]
               | Inr u \<Rightarrow>
                   [Printed (''hover: Missing author field in pubspec.yaml'' @ nl),
                    Printed (''hover: Using this username from system instead: '' @ u @ nl),
                    Printed (alreadyExistsMessage ''linux-deb'')])))"
    using probe
    by (simp add: initLinuxDeb_def authorOrCurrentUser_def assertCorrectOS_deb run_simps
        Let_def split: sum.splits)
  show ?thesis
    using probe snap deb by (auto simp: fatal_apply split: sum.splits)
qed

theorem scaffolding_refuses_existing_directory_witness:
  "configDirectoryState initializedHost ''linux-snap'' = Some StatOk
   \<and> createPackagingFormatDirectory initializedHost ''linux-snap'' []
       = Exits 1 [Printed (alreadyExistsMessage ''linux-snap'')]"
proof -
  have st: "configDirectoryState initializedHost ''linux-snap'' = Some StatOk"
    by (simp add: configDirectoryState_def initializedHost_def linuxHost_def eval_simps)
  show ?thesis
    using scaffolding_refuses_existing_directory [OF st, of "[]" "''myapp''"] st by simp
qed

text \<open>
  Claim C3. Where the configuration directory \<open><build>/packaging/<format>\<close> does not
  exist, the build of the format fails before any temporary staging directory is
  created. The guard \<open>assertPackagingFormatInitialized\<close> ends the process with exit status
  1 after printing the not-initialized message, so that nothing the caller runs behind
  it is entered, whatever it is; the build command of either format, which runs the
  build function behind the guard, exits with status 1 having printed that message and
  nothing else, and has not asked for a temporary directory.
\<close>

theorem guard_stops_build_before_staging:
  "(configDirectoryState E ''linux-snap'' = Some StatNotExist \<longrightarrow>
      andThen (assertPackagingFormatInitialized E ''linux-snap'') k h
        = Exits 1 (h @ [Printed (notInitializedMessage ''linux-snap'')])
      \<and> buildLinuxSnapCommand E projectName h
        = Exits 1 (h @ [Printed (notInitializedMessage ''linux-snap'')])
      \<and> \<not> tempDirRequested
            (drop (length h) (events_of (buildLinuxSnapCommand E projectName h))))
   \<and> (configDirectoryState E ''linux-deb'' = Some StatNotExist \<longrightarrow>
      andThen (assertPackagingFormatInitialized E ''linux-deb'') k' h
        = Exits 1 (h @ [Printed (notInitializedMessage ''linux-deb'')])
      \<and> buildLinuxDebCommand E projectName h
        = Exits 1 (h @ [Printed (notInitializedMessage ''linux-deb'')])
      \<and> \<not> tempDirRequested
            (drop (length h) (events_of (buildLinuxDebCommand E projectName h))))"
  by (auto dest!: configDirectoryState_Some
      simp: buildLinuxSnapCommand_def buildLinuxDebCommand_def
        assertPackagingFormatInitialized_probe run_simps)

theorem guard_stops_build_before_staging_witness:
  "configDirectoryState uninitializedHost ''linux-snap'' = Some StatNotExist
   \<and> configDirectoryState uninitializedHost ''linux-deb'' = Some StatNotExist
   \<and> buildLinuxSnapCommand uninitializedHost ''myapp'' []
        = Exits 1 [Printed (notInitializedMessage ''linux-snap'')]
   \<and> \<not> tempDirRequested (events_of (buildLinuxSnapCommand uninitializedHost ''myapp'' []))
   \<and> buildLinuxDebCommand uninitializedHost ''myapp'' []
        = Exits 1 [Printed (notInitializedMessage ''linux-deb'')]
   \<and> \<not> tempDirRequested (events_of (buildLinuxDebCommand uninitializedHost ''myapp'' []))"
proof -
  have snap: "configDirectoryState uninitializedHost ''linux-snap'' = Some StatNotExist"
    by (simp add: configDirectoryState_def uninitializedHost_def linuxHost_def eval_simps)
  have deb: "configDirectoryState uninitializedHost ''linux-deb'' = Some StatNotExist"
    by (simp add: configDirectoryState_def uninitializedHost_def linuxHost_def eval_simps)
  show ?thesis
    using guard_stops_build_before_staging
      [of uninitializedHost "\<lambda>_. buildLinuxSnap uninitializedHost ''myapp''" "[]" "''myapp''"
        "\<lambda>_. buildLinuxDeb uninitializedHost ''myapp''"]
      snap deb
    by simp
qed

section \<open>Case analysis on the calls of a run\<close>

lemma satisfies_case_option:
  "satisfies (case_option k f r h) P =
     ((r = None \<longrightarrow> satisfies (k h) P) \<and> (\<forall>e. r = Some e \<longrightarrow> satisfies (f e h) P))"
  by (cases r) simp_all

lemma satisfies_case_sum:
  "satisfies (case_sum f g r h) P =
     ((\<forall>a. r = Inl a \<longrightarrow> satisfies (f a h) P) \<and> (\<forall>b. r = Inr b \<longrightarrow> satisfies (g b h) P))"
  by (cases r) simp_all

lemma satisfies_if:
  "satisfies ((if b then m else n) h) P =
     ((b \<longrightarrow> satisfies (m h) P) \<and> (\<not> b \<longrightarrow> satisfies (n h) P))"
  by simp

lemma satisfies_Exits: "satisfies (Exits c h) P = P (Exits c h)"
  by (simp add: satisfies_def)

lemma satisfies_Returns: "satisfies (Returns x h) P = P (Returns x h)"
  by (simp add: satisfies_def)

lemma satisfies_returns: "satisfies (returns x h) P = P (Returns x h)"
  by (simp add: satisfies_def returns_def)

lemmas satisfies_simps =
  satisfies_case_option satisfies_case_sum satisfies_if satisfies_Exits satisfies_Returns
  satisfies_returns

lemmas build_simps =
  assertCorrectOS_snap assertCorrectOS_deb packagingFormatPath_def effect_defs run_simps
  Let_def satisfies_simps

lemmas host_defs =
  linuxHost_def initializedHost_def uninitializedHost_def bareHost_def lockedHost_def
  stickyHost_def darwinHost_def demoPubSpec_def

section \<open>Runs on the concrete hosts\<close>

lemma snap_build_on_initializedHost:
  "buildLinuxSnap initializedHost ''my-app'' [] =
     Returns ()
      [TempDir [] ''hover-build-my-app-linux-snap''
         (Inr ''/tmp/hover-build-my-app-linux-snap123456789''),
       Printed (''hover: Packaging snap in /tmp/hover-build-my-app-linux-snap123456789'' @ nl),
       Copy ''go/assets'' ''/tmp/hover-build-my-app-linux-snap123456789/assets'' None,
       Copy ''/home/dev/myapp/go/build/outputs/linux''
         ''/tmp/hover-build-my-app-linux-snap123456789/build'' None,
       Copy ''/home/dev/myapp/go/packaging/linux-snap''
         ''/tmp/hover-build-my-app-linux-snap123456789'' None,
       Run ''/usr/bin/snapcraft'' [] ''/tmp/hover-build-my-app-linux-snap123456789'' None,
       Rename ''/tmp/hover-build-my-app-linux-snap123456789/myapp_1.2.3_amd64.snap''
         ''/home/dev/myapp/go/build/outputs/linux-snap/myapp_amd64.snap'' None,
       RemoveAll ''/tmp/hover-build-my-app-linux-snap123456789'' None]"
  by (simp add: buildLinuxSnap_def snapOutputFilePath_def removeDashesAndUnderscores_def
      assertCorrectOS_snap host_defs eval_simps returns_def)

lemma deb_build_on_initializedHost:
  "buildLinuxDeb initializedHost ''my-app'' [] =
     Returns ()
      [TempDir [] ''hover-build-my-app-linux-deb''
         (Inr ''/tmp/hover-build-my-app-linux-deb123456789''),
       Printed (''hover: Packaging deb in /tmp/hover-build-my-app-linux-deb123456789'' @ nl),
       Copy ''/home/dev/myapp/go/build/outputs/linux''
         ''/tmp/hover-build-my-app-linux-deb123456789/usr/lib/my-app'' None,
       Copy ''/home/dev/myapp/go/packaging/linux-deb''
         ''/tmp/hover-build-my-app-linux-deb123456789'' None,
       Run ''/usr/bin/dpkg-deb'' [''--build'', ''.'', ''myapp_amd64.deb'']
         ''/tmp/hover-build-my-app-linux-deb123456789'' None,
       Rename ''/tmp/hover-build-my-app-linux-deb123456789/myapp_amd64.deb''
         ''/home/dev/myapp/go/build/outputs/linux-deb/myapp_amd64.deb'' None,
       RemoveAll ''/tmp/hover-build-my-app-linux-deb123456789'' None]"
  by (simp add: buildLinuxDeb_def debOutputFileName_def debOutputFilePath_def
      removeDashesAndUnderscores_def assertCorrectOS_deb host_defs eval_simps returns_def)

lemma snap_build_on_stickyHost:
  "buildLinuxSnap stickyHost ''my-app'' [] =
     Exits 1
      [TempDir [] ''hover-build-my-app-linux-snap''
         (Inr ''/tmp/hover-build-my-app-linux-snap123456789''),
       Printed (''hover: Packaging snap in /tmp/hover-build-my-app-linux-snap123456789'' @ nl),
       Copy ''go/assets'' ''/tmp/hover-build-my-app-linux-snap123456789/assets'' None,
       Copy ''/home/dev/myapp/go/build/outputs/linux''
         ''/tmp/hover-build-my-app-linux-snap123456789/build'' None,
       Copy ''/home/dev/myapp/go/packaging/linux-snap''
         ''/tmp/hover-build-my-app-linux-snap123456789'' None,
       Run ''/usr/bin/snapcraft'' [] ''/tmp/hover-build-my-app-linux-snap123456789'' None,
       Rename ''/tmp/hover-build-my-app-linux-snap123456789/myapp_1.2.3_amd64.snap''
         ''/home/dev/myapp/go/build/outputs/linux-snap/myapp_amd64.snap'' None,
       RemoveAll ''/tmp/hover-build-my-app-linux-snap123456789''
         (Some ''unlinkat /tmp/hover-build-my-app-linux-snap123456789: permission denied''),
       Printed (''hover: Could not remove packaging configuration folder: ''
                @ ''unlinkat /tmp/hover-build-my-app-linux-snap123456789: permission denied''
                @ nl)]"
  by (simp add: buildLinuxSnap_def snapOutputFilePath_def removeDashesAndUnderscores_def
      assertCorrectOS_snap host_defs eval_simps returns_def)

lemma snapOutputFilePath_on_initializedHost:
  "snapOutputFilePath
     (initializedHost \<lparr> getPubSpec := demoPubSpec \<lparr> Version := ''2.0.0'' \<rparr> \<rparr>) ''my-app''
     = ''/home/dev/myapp/go/build/outputs/linux-snap/myapp_amd64.snap''"
  "snapOutputFilePath initializedHost ''my-app''
     = ''/home/dev/myapp/go/build/outputs/linux-snap/myapp_amd64.snap''"
  "snapOutputFilePath stickyHost ''my-app''
     = ''/home/dev/myapp/go/build/outputs/linux-snap/myapp_amd64.snap''"
  by (simp_all add: snapOutputFilePath_def removeDashesAndUnderscores_def host_defs eval_simps)

lemma asset_bundle_on_initializedHost:
  "filepath_Join [buildPath initializedHost, ''assets''] = ''go/assets''"
  by (simp add: host_defs eval_simps)

section \<open>Staging, packaging and cleanup\<close>

text \<open>
  Claim C7. In every run of \<open>buildLinuxSnap\<close> and of \<open>buildLinuxDeb\<close>, however it ends,
  each \<open>os.RemoveAll\<close> among the events of the run comes after a successful \<open>os.Rename\<close>
  of the artifact to the canonical output path. A removal that fails ends the process
  with exit status 1; by the first part it does so with the artifact already moved.
\<close>

theorem cleanup_only_after_artifact_moved:
  "cleanupOnlyAfterMove (snapOutputFilePath E projectName) False
     (drop (length h) (events_of (buildLinuxSnap E projectName h)))
   \<and> (\<forall>path e. RemoveAll path (Some e)
                  \<in> set (drop (length h) (events_of (buildLinuxSnap E projectName h)))
        \<longrightarrow> (\<exists>h'. buildLinuxSnap E projectName h = Exits 1 h'))
   \<and> cleanupOnlyAfterMove (debOutputFilePath E projectName) False
     (drop (length h) (events_of (buildLinuxDeb E projectName h)))
   \<and> (\<forall>path e. RemoveAll path (Some e)
                  \<in> set (drop (length h) (events_of (buildLinuxDeb E projectName h)))
        \<longrightarrow> (\<exists>h'. buildLinuxDeb E projectName h = Exits 1 h'))"
proof -
  have snap: "satisfies (buildLinuxSnap E projectName h) (\<lambda>r.
      cleanupOnlyAfterMove (snapOutputFilePath E projectName) False
        (drop (length h) (events_of r))
      \<and> (\<forall>path e. RemoveAll path (Some e) \<in> set (drop (length h) (events_of r))
            \<longrightarrow> (\<exists>h'. r = Exits 1 h')))"
    by (simp add: buildLinuxSnap_def build_simps)
  have deb: "satisfies (buildLinuxDeb E projectName h) (\<lambda>r.
      cleanupOnlyAfterMove (debOutputFilePath E projectName) False
        (drop (length h) (events_of r))
      \<and> (\<forall>path e. RemoveAll path (Some e) \<in> set (drop (length h) (events_of r))
            \<longrightarrow> (\<exists>h'. r = Exits 1 h')))"
    by (simp add: buildLinuxDeb_def build_simps)
  show ?thesis using snap deb by (simp add: satisfies_def)
qed

theorem cleanup_only_after_artifact_moved_witness:
  "RemoveAll ''/tmp/hover-build-my-app-linux-snap123456789''
       (Some ''unlinkat /tmp/hover-build-my-app-linux-snap123456789: permission denied'')
     \<in> set (events_of (buildLinuxSnap stickyHost ''my-app'' []))
   \<and> cleanupOnlyAfterMove ''/home/dev/myapp/go/build/outputs/linux-snap/myapp_amd64.snap''
        False (events_of (buildLinuxSnap stickyHost ''my-app'' []))"
  using cleanup_only_after_artifact_moved [of stickyHost "''my-app''" "[]"]
  by (simp add: snap_build_on_stickyHost snapOutputFilePath_on_initializedHost)

text \<open>
  Claim C2, as stated, fails for linux-deb: a deb build on a host where every call
  succeeds reaches the packager without any copy of the asset bundle, and nothing is
  copied to \<open>assets/\<close> under the staging root.
\<close>

theorem deb_staging_copies_no_assets_counterexample:
  "packagerStarted (events_of (buildLinuxDeb initializedHost ''my-app'' []))
   \<and> stagingRoot (events_of (buildLinuxDeb initializedHost ''my-app'' []))
       = Some ''/tmp/hover-build-my-app-linux-deb123456789''
   \<and> filepath_Join [buildPath initializedHost, ''assets''] = ''go/assets''
   \<and> (''go/assets'', ''/tmp/hover-build-my-app-linux-deb123456789/assets'')
       \<notin> set (copies_of (events_of (buildLinuxDeb initializedHost ''my-app'' [])))
   \<and> copies_of (events_of (buildLinuxDeb initializedHost ''my-app'' []))
       = [(''/home/dev/myapp/go/build/outputs/linux'',
           ''/tmp/hover-build-my-app-linux-deb123456789/usr/lib/my-app''),
          (''/home/dev/myapp/go/packaging/linux-deb'',
           ''/tmp/hover-build-my-app-linux-deb123456789'')]"
  by (simp add: deb_build_on_initializedHost asset_bundle_on_initializedHost)

text \<open>
  Claim C2, amended. Whenever a build gets as far as starting the packager, the copies
  it has made into the temporary directory \<open>tmpPath\<close> are, in this order: for
  linux-snap the asset bundle \<open><build>/assets\<close> to \<open>tmpPath/assets\<close>, the platform build
  output to \<open>tmpPath/build\<close>, and the scaffolded configuration tree to \<open>tmpPath\<close>; for
  linux-deb the platform build output to \<open>tmpPath/usr/lib/<projectName>\<close> and the
  configuration tree to \<open>tmpPath\<close>, and no others.
\<close>

theorem staging_copies_by_format:
  "(packagerStarted (drop (length h) (events_of (buildLinuxSnap E projectName h))) \<longrightarrow>
      (\<exists>tmpPath configPath.
          stagingRoot (drop (length h) (events_of (buildLinuxSnap E projectName h)))
            = Some tmpPath
        \<and> filepath_Abs E (filepath_Join [packagingPath E, ''linux-snap'']) = Inr configPath
        \<and> copies_of (drop (length h) (events_of (buildLinuxSnap E projectName h)))
            = [(filepath_Join [buildPath E, ''assets''], filepath_Join [tmpPath, ''assets'']),
               (outputDirectoryPath E ''linux'', filepath_Join [tmpPath, ''build'']),
               (configPath, filepath_Join [tmpPath])]))
   \<and> (packagerStarted (drop (length h) (events_of (buildLinuxDeb E projectName h))) \<longrightarrow>
      (\<exists>tmpPath libDirectoryPath configPath.
          stagingRoot (drop (length h) (events_of (buildLinuxDeb E projectName h)))
            = Some tmpPath
        \<and> filepath_Abs E (filepath_Join [tmpPath, ''usr'', ''lib'']) = Inr libDirectoryPath
        \<and> filepath_Abs E (filepath_Join [packagingPath E, ''linux-deb'']) = Inr configPath
        \<and> copies_of (drop (length h) (events_of (buildLinuxDeb E projectName h)))
            = [(outputDirectoryPath E ''linux'',
                filepath_Join [libDirectoryPath, projectName]),
               (configPath, filepath_Join [tmpPath])]))"
proof -
  have snap: "satisfies (buildLinuxSnap E projectName h) (\<lambda>r.
      packagerStarted (drop (length h) (events_of r)) \<longrightarrow>
      (\<exists>tmpPath configPath.
          stagingRoot (drop (length h) (events_of r)) = Some tmpPath
        \<and> filepath_Abs E (filepath_Join [packagingPath E, ''linux-snap'']) = Inr configPath
        \<and> copies_of (drop (length h) (events_of r))
            = [(filepath_Join [buildPath E, ''assets''], filepath_Join [tmpPath, ''assets'']),
               (outputDirectoryPath E ''linux'', filepath_Join [tmpPath, ''build'']),
               (configPath, filepath_Join [tmpPath])]))"
    by (simp add: buildLinuxSnap_def build_simps)
  have deb: "satisfies (buildLinuxDeb E projectName h) (\<lambda>r.
      packagerStarted (drop (length h) (events_of r)) \<longrightarrow>
      (\<exists>tmpPath libDirectoryPath configPath.
          stagingRoot (drop (length h) (events_of r)) = Some tmpPath
        \<and> filepath_Abs E (filepath_Join [tmpPath, ''usr'', ''lib'']) = Inr libDirectoryPath
        \<and> filepath_Abs E (filepath_Join [packagingPath E, ''linux-deb'']) = Inr configPath
        \<and> copies_of (drop (length h) (events_of r))
            = [(outputDirectoryPath E ''linux'',
                filepath_Join [libDirectoryPath, projectName]),
               (configPath, filepath_Join [tmpPath])]))"
    by (simp add: buildLinuxDeb_def build_simps)
  show ?thesis using snap deb by (simp add: satisfies_def)
qed

theorem staging_copies_by_format_witness:
  "packagerStarted (events_of (buildLinuxSnap initializedHost ''my-app'' []))
   \<and> copies_of (events_of (buildLinuxSnap initializedHost ''my-app'' []))
       = [(''go/assets'', ''/tmp/hover-build-my-app-linux-snap123456789/assets''),
          (''/home/dev/myapp/go/build/outputs/linux'',
           ''/tmp/hover-build-my-app-linux-snap123456789/build''),
          (''/home/dev/myapp/go/packaging/linux-snap'',
           ''/tmp/hover-build-my-app-linux-snap123456789'')]
   \<and> packagerStarted (events_of (buildLinuxDeb initializedHost ''my-app'' []))
   \<and> copies_of (events_of (buildLinuxDeb initializedHost ''my-app'' []))
       = [(''/home/dev/myapp/go/build/outputs/linux'',
           ''/tmp/hover-build-my-app-linux-deb123456789/usr/lib/my-app''),
          (''/home/dev/myapp/go/packaging/linux-deb'',
           ''/tmp/hover-build-my-app-linux-deb123456789'')]"
  using staging_copies_by_format [of "[]" initializedHost "''my-app''"]
  by (simp add: snap_build_on_initializedHost deb_build_on_initializedHost)

text \<open>
  Claim C6. In every run of \<open>buildLinuxSnap\<close> that returns, the file
  \<open><strippedName>_<version>_<arch>.snap\<close> in the temporary directory of the run has been
  renamed, with success, to \<open><outputDir>/<strippedName>_<arch>.snap\<close>. That path has no
  version in it: it is the same for every host with the same output directory and
  architecture, whatever the project metadata and the temporary directory are.
\<close>

theorem snap_artifact_renamed_to_versionless_path:
  "(buildLinuxSnap E projectName h = Returns () h' \<longrightarrow>
      (\<exists>tmpPath. stagingRoot (drop (length h) h') = Some tmpPath
        \<and> Rename (filepath_Join [tmpPath,
                     removeDashesAndUnderscores projectName @ ''_'' @ Version (getPubSpec E)
                     @ ''_'' @ runtime_GOARCH E @ ''.snap''])
                  (filepath_Join [outputDirectoryPath E ''linux-snap'',
                     removeDashesAndUnderscores projectName @ ''_'' @ runtime_GOARCH E
                     @ ''.snap''])
                  None
            \<in> set (drop (length h) h')))
   \<and> (outputDirectoryPath E' = outputDirectoryPath E \<and> runtime_GOARCH E' = runtime_GOARCH E
        \<longrightarrow> snapOutputFilePath E' projectName = snapOutputFilePath E projectName)"
proof -
  have "satisfies (buildLinuxSnap E projectName h) (\<lambda>r. r = Returns () h' \<longrightarrow>
      (\<exists>tmpPath. stagingRoot (drop (length h) h') = Some tmpPath
        \<and> Rename (filepath_Join [tmpPath,
                     removeDashesAndUnderscores projectName @ ''_'' @ Version (getPubSpec E)
                     @ ''_'' @ runtime_GOARCH E @ ''.snap''])
                  (filepath_Join [outputDirectoryPath E ''linux-snap'',
                     removeDashesAndUnderscores projectName @ ''_'' @ runtime_GOARCH E
                     @ ''.snap''])
                  None
            \<in> set (drop (length h) h')))"
    by (auto simp add: buildLinuxSnap_def build_simps snapOutputFilePath_def)
  then show ?thesis by (simp add: satisfies_def snapOutputFilePath_def)
qed

theorem snap_artifact_renamed_to_versionless_path_witness:
  "Rename ''/tmp/hover-build-my-app-linux-snap123456789/myapp_1.2.3_amd64.snap''
       ''/home/dev/myapp/go/build/outputs/linux-snap/myapp_amd64.snap'' None
     \<in> set (events_of (buildLinuxSnap initializedHost ''my-app'' []))
   \<and> snapOutputFilePath
        (initializedHost \<lparr> getPubSpec := demoPubSpec \<lparr> Version := ''2.0.0'' \<rparr> \<rparr>) ''my-app''
       = snapOutputFilePath initializedHost ''my-app''"
  using snap_artifact_renamed_to_versionless_path
    [of initializedHost "''my-app''" "[]" "events_of (buildLinuxSnap initializedHost ''my-app'' [])"
      "initializedHost \<lparr> getPubSpec := demoPubSpec \<lparr> Version := ''2.0.0'' \<rparr> \<rparr>"]
  by (simp add: snap_build_on_initializedHost snapOutputFilePath_on_initializedHost)

section \<open>Scaffolding the deb configuration\<close>

text \<open>A run of \<open>writeLines\<close> that returns has written every line, in order, and nothing else.\<close>

lemma writeLines_Returns:
  "writeLines E file what ls h = Returns x h'
   \<Longrightarrow> h' = h @ map (\<lambda>line. WriteString file (line @ nl) None) ls"
proof (induction ls arbitrary: h)
  case Nil
  then show ?case by (simp add: returns_def)
next
  case (Cons line rest)
  show ?case
  proof (cases "env_WriteString E (length h) file (line @ nl)")
    case None
    with Cons.prems have "writeLines E file what rest (h @ [WriteString file (line @ nl) None])
        = Returns x h'"
      by (simp add: file_WriteString_def andThen_effect)
    from Cons.IH [OF this] show ?thesis by simp
  next
    case (Some e)
    with Cons.prems show ?thesis
      by (simp add: file_WriteString_def andThen_effect fatal_apply)
  qed
qed

lemma satisfies_writeLines:
  assumes "\<And>c h'. P (Exits c h')"
  shows "satisfies (andThen (writeLines E file what ls) k h) P =
     (writeLines E file what ls h
        = Returns () (h @ map (\<lambda>line. WriteString file (line @ nl) None) ls)
      \<longrightarrow> satisfies (k () (h @ map (\<lambda>line. WriteString file (line @ nl) None) ls)) P)"
proof (cases "writeLines E file what ls h")
  case (Returns x h')
  from writeLines_Returns [OF this] Returns show ?thesis
    by (simp add: andThen_def)
next
  case (Exits c h')
  then show ?thesis using assms by (simp add: andThen_def satisfies_def)
qed

lemma removeDashesAndUnderscores_changes:
  "CHR ''-'' \<in> set s \<or> CHR ''_'' \<in> set s \<Longrightarrow> removeDashesAndUnderscores s \<noteq> s"
proof
  assume has: "CHR ''-'' \<in> set s \<or> CHR ''_'' \<in> set s"
    and same: "removeDashesAndUnderscores s = s"
  have "CHR ''-'' \<notin> set (removeDashesAndUnderscores s)"
    and "CHR ''_'' \<notin> set (removeDashesAndUnderscores s)"
    by (simp_all add: removeDashesAndUnderscores_filter)
  with has same show False by simp
qed

lemmas init_defs =
  createPackagingFormatDirectory_def printInitFinished_def packagingFormatPath_def
  effect_defs assertCorrectOS_snap assertCorrectOS_deb Let_def prog_simps

lemma debDesktopFileContent_Exec:
  "''Exec=/usr/bin/'' @ projectName \<in> set (debDesktopFileContent E projectName)"
  by (simp add: debDesktopFileContent_def)

lemma written_line:
  "l \<in> set ls \<Longrightarrow>
     WriteString file (l @ nl) None \<in> (\<lambda>line. WriteString file (line @ nl) None) ` set ls"
  by (rule imageI)

lemma initLinuxDeb_Returns:
  "satisfies (initLinuxDeb E projectName h) (\<lambda>r. r = Returns () h' \<longrightarrow>
     (\<exists>debDirectoryPath binDirectoryPath binFilePath applicationsDirectoryPath desktopFilePath.
         filepath_Abs E (filepath_Join [packagingPath E, ''linux-deb'']) = Inr debDirectoryPath
       \<and> filepath_Abs E (filepath_Join [debDirectoryPath, ''usr'', ''bin''])
           = Inr binDirectoryPath
       \<and> filepath_Abs E (filepath_Join [binDirectoryPath,
             removeDashesAndUnderscores projectName]) = Inr binFilePath
       \<and> filepath_Abs E (filepath_Join [debDirectoryPath, ''usr'', ''share'', ''applications''])
           = Inr applicationsDirectoryPath
       \<and> filepath_Abs E (filepath_Join [applicationsDirectoryPath, projectName @ ''.desktop''])
           = Inr desktopFilePath
       \<and> Create binFilePath None \<in> set (drop (length h) h')
       \<and> Chmod binFilePath perm_0777 None \<in> set (drop (length h) h')
       \<and> WriteString desktopFilePath (''Exec=/usr/bin/'' @ projectName @ nl) None
           \<in> set (drop (length h) h')))"
  unfolding initLinuxDeb_def authorOrCurrentUser_def init_defs
  by (auto simp add: run_simps satisfies_simps satisfies_writeLines fmt_Print_def os_Exit_def
      written_line [OF debDesktopFileContent_Exec, simplified])

lemma deb_init_on_linuxHost:
  "initLinuxDeb linuxHost ''my_app'' [] =
     Returns ()
      [Printed (''hover: Missing author field in pubspec.yaml'' @ nl),
       Printed (''hover: Using this username from system instead: dev'' @ nl),
       MkdirAll ''/home/dev/myapp/go/packaging/linux-deb'' perm_0775 None,
       MkdirAll ''/home/dev/myapp/go/packaging/linux-deb/DEBIAN'' perm_0775 None,
       MkdirAll ''/home/dev/myapp/go/packaging/linux-deb/usr/bin'' perm_0775 None,
       MkdirAll ''/home/dev/myapp/go/packaging/linux-deb/usr/share/applications'' perm_0775 None,
       Create ''/home/dev/myapp/go/packaging/linux-deb/DEBIAN/control'' None,
       WriteString ''/home/dev/myapp/go/packaging/linux-deb/DEBIAN/control''
         (''Package: myapp'' @ nl) None,
       WriteString ''/home/dev/myapp/go/packaging/linux-deb/DEBIAN/control''
         (''Architecture: amd64'' @ nl) None,
       WriteString ''/home/dev/myapp/go/packaging/linux-deb/DEBIAN/control''
         (''Maintainer: @'' @ nl) None,
       WriteString ''/home/dev/myapp/go/packaging/linux-deb/DEBIAN/control''
         (''Priority: optional'' @ nl) None,
       WriteString ''/home/dev/myapp/go/packaging/linux-deb/DEBIAN/control''
         (''Version: 1.2.3'' @ nl) None,
       WriteString ''/home/dev/myapp/go/packaging/linux-deb/DEBIAN/control''
         (''Description: demo'' @ nl) None,
       WriteString ''/home/dev/myapp/go/packaging/linux-deb/DEBIAN/control''
         (''Depends: libx11-6,libxrandr2,libxcursor1,libxinerama1'' @ nl) None,
       Close ''/home/dev/myapp/go/packaging/linux-deb/DEBIAN/control'' None,
       Create ''/home/dev/myapp/go/packaging/linux-deb/usr/bin/myapp'' None,
       WriteString ''/home/dev/myapp/go/packaging/linux-deb/usr/bin/myapp''
         (''#!/bin/sh'' @ nl) None,
       WriteString ''/home/dev/myapp/go/packaging/linux-deb/usr/bin/myapp''
         (''/usr/lib/my_app/my_app'' @ nl) None,
       Close ''/home/dev/myapp/go/packaging/linux-deb/usr/bin/myapp'' None,
       Chmod ''/home/dev/myapp/go/packaging/linux-deb/usr/bin/myapp'' perm_0777 None,
       Create ''/home/dev/myapp/go/packaging/linux-deb/usr/share/applications/my_app.desktop''
         None,
       WriteString ''/home/dev/myapp/go/packaging/linux-deb/usr/share/applications/my_app.desktop''
         (''[Desktop Entry]'' @ nl) None,
       WriteString ''/home/dev/myapp/go/packaging/linux-deb/usr/share/applications/my_app.desktop''
         (''Encoding=UTF-8'' @ nl) None,
       WriteString ''/home/dev/myapp/go/packaging/linux-deb/usr/share/applications/my_app.desktop''
         (''Version=1.2.3'' @ nl) None,
       WriteString ''/home/dev/myapp/go/packaging/linux-deb/usr/share/applications/my_app.desktop''
         (''Type=Application'' @ nl) None,
       WriteString ''/home/dev/myapp/go/packaging/linux-deb/usr/share/applications/my_app.desktop''
         (''Terminal=false'' @ nl) None,
       WriteString ''/home/dev/myapp/go/packaging/linux-deb/usr/share/applications/my_app.desktop''
         (''Exec=/usr/bin/my_app'' @ nl) None,
       WriteString ''/home/dev/myapp/go/packaging/linux-deb/usr/share/applications/my_app.desktop''
         (''Name=my_app'' @ nl) None,
       WriteString ''/home/dev/myapp/go/packaging/linux-deb/usr/share/applications/my_app.desktop''
         (''Icon=/usr/lib/my_app/assets/icon.png'' @ nl) None,
       Close ''/home/dev/myapp/go/packaging/linux-deb/usr/share/applications/my_app.desktop''
         None,
       Printed (''hover: go/packaging/linux-deb has been created. You can modify the configuration files and add it to git.'' @ nl),
       Printed (''hover: You now can package the linux using `hover build linux-deb`'' @ nl)]"
  unfolding initLinuxDeb_def authorOrCurrentUser_def init_defs
  by (simp add: host_defs eval_simps returns_def controlFileContent_def binFileContent_def
      debDesktopFileContent_def linuxPackagingDependencies_def removeDashesAndUnderscores_def
      fmt_Print_def os_Exit_def)

text \<open>
  Claim C9. For every project name with at least one \<open>-\<close> or \<open>_\<close>, a run of
  \<open>initLinuxDeb\<close> that returns has created the shell wrapper, and made it executable, at
  \<open>usr/bin/<name without dashes and underscores>\<close> under the deb configuration directory,
  and has written the line \<open>Exec=/usr/bin/<raw project name>\<close> into the desktop entry
  \<open>usr/share/applications/<raw project name>.desktop\<close>; the path of the \<open>Exec\<close> line and
  the path the wrapper is installed at differ.
\<close>

theorem deb_wrapper_path_differs_from_desktop_exec:
  assumes "CHR ''-'' \<in> set projectName \<or> CHR ''_'' \<in> set projectName"
    and "initLinuxDeb E projectName h = Returns () h'"
  shows "\<exists>debDirectoryPath binDirectoryPath binFilePath applicationsDirectoryPath desktopFilePath.
         filepath_Abs E (filepath_Join [packagingPath E, ''linux-deb'']) = Inr debDirectoryPath
       \<and> filepath_Abs E (filepath_Join [debDirectoryPath, ''usr'', ''bin''])
           = Inr binDirectoryPath
       \<and> filepath_Abs E (filepath_Join [binDirectoryPath,
             removeDashesAndUnderscores projectName]) = Inr binFilePath
       \<and> filepath_Abs E (filepath_Join [debDirectoryPath, ''usr'', ''share'', ''applications''])
           = Inr applicationsDirectoryPath
       \<and> filepath_Abs E (filepath_Join [applicationsDirectoryPath, projectName @ ''.desktop''])
           = Inr desktopFilePath
       \<and> Create binFilePath None \<in> set (drop (length h) h')
       \<and> Chmod binFilePath perm_0777 None \<in> set (drop (length h) h')
       \<and> WriteString desktopFilePath (''Exec=/usr/bin/'' @ projectName @ nl) None
           \<in> set (drop (length h) h')
       \<and> ''/usr/bin/'' @ removeDashesAndUnderscores projectName \<noteq> ''/usr/bin/'' @ projectName"
proof -
  from assms(1) have "removeDashesAndUnderscores projectName \<noteq> projectName"
    by (rule removeDashesAndUnderscores_changes)
  with initLinuxDeb_Returns [of E projectName h h'] assms(2) show ?thesis
    by (simp add: satisfies_def)
qed

theorem deb_wrapper_path_differs_from_desktop_exec_witness:
  "(CHR ''-'' \<in> set ''my_app'' \<or> CHR ''_'' \<in> set ''my_app'')
   \<and> initLinuxDeb linuxHost ''my_app'' []
       = Returns () (events_of (initLinuxDeb linuxHost ''my_app'' []))
   \<and> Create ''/home/dev/myapp/go/packaging/linux-deb/usr/bin/myapp'' None
       \<in> set (events_of (initLinuxDeb linuxHost ''my_app'' []))
   \<and> Chmod ''/home/dev/myapp/go/packaging/linux-deb/usr/bin/myapp'' perm_0777 None
       \<in> set (events_of (initLinuxDeb linuxHost ''my_app'' []))
   \<and> WriteString ''/home/dev/myapp/go/packaging/linux-deb/usr/share/applications/my_app.desktop''
         (''Exec=/usr/bin/my_app'' @ nl) None
       \<in> set (events_of (initLinuxDeb linuxHost ''my_app'' []))
   \<and> ''/usr/bin/'' @ removeDashesAndUnderscores ''my_app'' \<noteq> ''/usr/bin/my_app''"
  using deb_wrapper_path_differs_from_desktop_exec
    [of "''my_app''" linuxHost "[]" "events_of (initLinuxDeb linuxHost ''my_app'' [])"]
  by (simp add: deb_init_on_linuxHost removeDashesAndUnderscores_def)

text \<open>
  Claim C1. The claim: when the author field of the project metadata is empty,
  \<open>initLinuxDeb\<close> warns about it and the \<open>Maintainer\<close> line of \<open>DEBIAN/control\<close> names the
  current user of the operating system. The code, on a Linux host whose pubspec has an
  empty author and whose current user is \<open>dev\<close>: it prints the warning and the message that
  the username \<open>dev\<close> is used instead, and then writes the line \<open>Maintainer: @\<close>, built
  from the author field again and not from the local variable holding the fallback; the
  line \<open>Maintainer: @dev\<close> is never written.
\<close>

theorem maintainer_line_ignores_username_fallback:
  "Author (getPubSpec linuxHost) = []
   \<and> user_Current linuxHost = Inr ''dev''
   \<and> initLinuxDeb linuxHost ''my_app'' []
       = Returns () (events_of (initLinuxDeb linuxHost ''my_app'' []))
   \<and> Printed (''hover: Missing author field in pubspec.yaml'' @ nl)
       \<in> set (events_of (initLinuxDeb linuxHost ''my_app'' []))
   \<and> Printed (''hover: Using this username from system instead: dev'' @ nl)
       \<in> set (events_of (initLinuxDeb linuxHost ''my_app'' []))
   \<and> WriteString ''/home/dev/myapp/go/packaging/linux-deb/DEBIAN/control''
         (''Maintainer: @'' @ nl) None
       \<in> set (events_of (initLinuxDeb linuxHost ''my_app'' []))
   \<and> WriteString ''/home/dev/myapp/go/packaging/linux-deb/DEBIAN/control''
         (''Maintainer: @dev'' @ nl) None
       \<notin> set (events_of (initLinuxDeb linuxHost ''my_app'' []))"
proof -
  have "Author (getPubSpec linuxHost) = []" and "user_Current linuxHost = Inr ''dev''"
    by (simp_all add: linuxHost_def demoPubSpec_def)
  then show ?thesis
    by (simp add: deb_init_on_linuxHost nl_def)
qed

end
